theory Spec2Isabelle
  imports Main "HOL-Library.Sublist"
begin

text \<open>
  The message router of the quicklang bot: the class \<open>TelegramBotService\<close> with its
  registry of commands and free-text triggers and its handling of an inbound message, the
  logger, and the configuration read from the environment. State is passed explicitly:
  an operation takes the service and returns the service after it. What lies outside the
  repository (the JavaScript runtime, the transport library, the console, the file system,
  the clock, the environment) appears as data of the model.
\<close>

section \<open>Strings\<close>

text \<open>
  Texts are \<open>string\<close>s (lists of \<open>char\<close>, a \<open>char\<close> standing for a code unit).
  \<open>String_includes s t\<close> is \<^verbatim>\<open>s.includes(t)\<close>: it looks for \<open>t\<close> at every position of
  \<open>s\<close>, the end included. \<open>toLowerChar\<close> is what \<^verbatim>\<open>toLowerCase\<close> does to a character of
  an ASCII string; \<open>toLowerCase\<close> itself is defined below, with the runtime.
\<close>

definition isASCII :: "char \<Rightarrow> bool" where
  "isASCII c = ((of_char c :: nat) < 128)"

definition toLowerChar :: "char \<Rightarrow> char" where
  "toLowerChar c =
     (let n = (of_char c :: nat) in if 65 \<le> n \<and> n \<le> 90 then char_of (n + 32) else c)"

fun String_includes :: "string \<Rightarrow> string \<Rightarrow> bool" where
  "String_includes [] t = (t = [])"
| "String_includes (c # s) t = (prefix t (c # s) \<or> String_includes s t)"

section \<open>Regular expressions\<close>

text \<open>
  The pattern syntax is interpreted here on a fragment: the assertions \<^verbatim>\<open>^\<close> and \<^verbatim>\<open>$\<close>,
  the wildcard \<^verbatim>\<open>.\<close> (any character but a line terminator) and characters that stand
  for themselves. \<open>parsePattern\<close> answers \<open>None\<close> for a pattern with any other syntax
  character (a quantifier, a group, a class, an alternation, an escape, a brace); what
  \<^verbatim>\<open>new RegExp\<close> does with such a pattern is left to the runtime, below.
\<close>

datatype PatternAtom = StartOfInput | EndOfInput | AnyChar | Lit char

datatype error = SyntaxError

definition parseAtom :: "char \<Rightarrow> PatternAtom option" where
  "parseAtom c =
     (if c = CHR ''^'' then Some StartOfInput
      else if c = CHR ''$'' then Some EndOfInput
      else if c = CHR ''.'' then Some AnyChar
      else if c \<in> set (CHR 0x5C # ''*+?()[]{}|'') then None
      else Some (Lit c))"

fun parsePattern :: "string \<Rightarrow> PatternAtom list option" where
  "parsePattern [] = Some []"
| "parsePattern (c # p) =
     (case parseAtom c of
        None \<Rightarrow> None
      | Some a \<Rightarrow> (case parsePattern p of None \<Rightarrow> None | Some as \<Rightarrow> Some (a # as)))"

definition isLineTerminator :: "char \<Rightarrow> bool" where
  "isLineTerminator c = (c = CHR 0x0A \<or> c = CHR 0x0D)"

text \<open>
  \<open>matchHere as atStart s\<close>: the atoms \<open>as\<close> match a prefix of the rest \<open>s\<close> of the
  text; \<open>atStart\<close> says that no character of the text has been consumed yet.
  \<open>matchAnywhere\<close> tries every start position from left to right, as \<^verbatim>\<open>exec\<close> does.
\<close>

fun matchHere :: "PatternAtom list \<Rightarrow> bool \<Rightarrow> string \<Rightarrow> bool" where
  "matchHere [] atStart s = True"
| "matchHere (StartOfInput # as) atStart s = (atStart \<and> matchHere as atStart s)"
| "matchHere (EndOfInput # as) atStart s = (s = [] \<and> matchHere as atStart s)"
| "matchHere (AnyChar # as) atStart [] = False"
| "matchHere (AnyChar # as) atStart (c # s) = (\<not> isLineTerminator c \<and> matchHere as False s)"
| "matchHere (Lit x # as) atStart [] = False"
| "matchHere (Lit x # as) atStart (c # s) = (x = c \<and> matchHere as False s)"

fun matchAnywhere :: "PatternAtom list \<Rightarrow> bool \<Rightarrow> string \<Rightarrow> bool" where
  "matchAnywhere as atStart [] = matchHere as atStart []"
| "matchAnywhere as atStart (c # s) = (matchHere as atStart (c # s) \<or> matchAnywhere as False s)"

text \<open>
  A regular expression without flags, such as the one that \<open>registerCommand\<close> constructs:
  \<^verbatim>\<open>exec\<close> and \<^verbatim>\<open>test\<close> neither read nor write its \<^verbatim>\<open>lastIndex\<close>, so it is modelled by
  what they decide on a text, whether a match exists.
\<close>

datatype RegExp = RegExp (RegExp_test: "string \<Rightarrow> bool")

text \<open>
  A \<open>RegExp\<close> object as a caller may hand it to the service as a trigger, with any flags.
  Its pattern is given by \<open>matcher\<close>: \<open>matcher r s i = Some e\<close> when the pattern matches
  the text \<open>s\<close> from index \<open>i\<close> to index \<open>e\<close>. With the flag \<^verbatim>\<open>g\<close> or \<^verbatim>\<open>y\<close> the object
  keeps \<open>lastIndex\<close> between calls. \<open>RegExp_exec\<close> follows the algorithm of the language
  (RegExpBuiltinExec): the search starts at \<open>lastIndex\<close> when a flag is set and at 0
  otherwise; it tries the start index and, unless the flag \<^verbatim>\<open>y\<close> is set, every later
  index up to the length of the text; with a flag set, a match stores its end in
  \<open>lastIndex\<close> and a failure stores 0. The result says whether a match was found, which
  is what \<^verbatim>\<open>test\<close> returns.
\<close>

record RegExpObject =
  matcher :: "string \<Rightarrow> nat \<Rightarrow> nat option"
  global :: bool
  sticky :: bool
  lastIndex :: nat

fun firstMatch :: "(nat \<Rightarrow> nat option) \<Rightarrow> bool \<Rightarrow> nat list \<Rightarrow> nat option" where
  "firstMatch m stick [] = None"
| "firstMatch m stick (i # is) =
     (case m i of
        Some e \<Rightarrow> Some e
      | None \<Rightarrow> if stick then None else firstMatch m stick is)"

definition RegExp_exec :: "RegExpObject \<Rightarrow> string \<Rightarrow> bool \<times> RegExpObject" where
  "RegExp_exec r s =
     (let start = (if global r \<or> sticky r then lastIndex r else 0) in
      case firstMatch (matcher r s) (sticky r) [start ..< Suc (length s)] of
        None \<Rightarrow> (False, if global r \<or> sticky r then r\<lparr>lastIndex := 0\<rparr> else r)
      | Some e \<Rightarrow> (True, if global r \<or> sticky r then r\<lparr>lastIndex := e\<rparr> else r))"

text \<open>
  The matcher of a pattern of the fragment: a match of the atoms \<open>as\<close> that starts at
  index \<open>i\<close> ends after as many characters as there are atoms that consume one.
\<close>

fun width :: "PatternAtom \<Rightarrow> nat" where
  "width StartOfInput = 0"
| "width EndOfInput = 0"
| "width AnyChar = 1"
| "width (Lit c) = 1"

definition atomsMatcher :: "PatternAtom list \<Rightarrow> string \<Rightarrow> nat \<Rightarrow> nat option" where
  "atomsMatcher as s i =
     (if matchHere as (i = 0) (drop i s) then Some (i + sum_list (map width as)) else None)"

section \<open>The JavaScript runtime\<close>

text \<open>
  What the service uses of the runtime and this development does not compute itself:
  \<^item> \<open>lowerCaseUnicode\<close> is \<^verbatim>\<open>String.prototype.toLowerCase\<close> on the strings that are not
    pure ASCII (on an ASCII string it lowers the letters A to Z, which \<open>toLowerCase\<close>
    computes);
  \<^item> \<open>compileOther\<close> is \<^verbatim>\<open>new RegExp(pattern)\<close> on the patterns outside the fragment: the
    regular expression, or the \<open>SyntaxError\<close> raised for an ill-formed pattern;
  \<^item> \<open>regexps\<close> is the part of the heap that holds the \<open>RegExp\<close> objects: a trigger
    refers to its object by an address, so that the object is shared with the caller and
    with any other trigger that refers to it.
\<close>

record Runtime =
  lowerCaseUnicode :: "string \<Rightarrow> string"
  compileOther :: "string \<Rightarrow> error + RegExp"
  regexps :: "nat \<rightharpoonup> RegExpObject"

definition toLowerCase :: "Runtime \<Rightarrow> string \<Rightarrow> string" where
  "toLowerCase rt s = (if list_all isASCII s then map toLowerChar s else lowerCaseUnicode rt s)"

definition RegExp_new :: "Runtime \<Rightarrow> string \<Rightarrow> error + RegExp" where
  "RegExp_new rt pattern =
     (case parsePattern pattern of
        None \<Rightarrow> compileOther rt pattern
      | Some as \<Rightarrow> Inr (RegExp (\<lambda>s. matchAnywhere as True s)))"

section \<open>The transport: node-telegram-bot-api\<close>

text \<open>
  The transport library is not part of the repository. Its state is kept as far as the
  service uses it: the constructor options, the list of \<^verbatim>\<open>onText\<close> registrations in
  registration order, and the requests sent to the chat service so far.
\<close>

record ConstructorOptions =
  polling :: bool
  onlyFirstMatch :: bool

datatype ChatId = ChatNumber int | ChatName string

record Message =
  chat_id :: int
  msg_text :: "string option"

record CallbackQuery =
  query_id :: string
  query_data :: "string option"

datatype Update = MessageUpdate Message | CallbackQueryUpdate CallbackQuery

record BotCommand =
  command :: string
  description :: string

datatype Request =
    SendMessage ChatId string
  | AnswerCallbackQuery string
  | SetMyCommands "BotCommand list"

record 'h TelegramBot =
  token :: string
  options :: ConstructorOptions
  textRegexpCallbacks :: "(RegExp \<times> 'h) list"
  requests :: "Request list"

definition TelegramBot_new :: "string \<Rightarrow> ConstructorOptions \<Rightarrow> 'h TelegramBot" where
  "TelegramBot_new tok opts =
     \<lparr>token = tok, options = opts, textRegexpCallbacks = [], requests = []\<rparr>"

definition onText :: "'h TelegramBot \<Rightarrow> RegExp \<Rightarrow> 'h \<Rightarrow> 'h TelegramBot" where
  "onText b regexp callback =
     b\<lparr>textRegexpCallbacks := textRegexpCallbacks b @ [(regexp, callback)]\<rparr>"

definition send :: "'h TelegramBot \<Rightarrow> Request \<Rightarrow> 'h TelegramBot" where
  "send b r = b\<lparr>requests := requests b @ [r]\<rparr>"

text \<open>
  The library's loop over the \<^verbatim>\<open>onText\<close> registrations, run on every message with a
  text (\<open>runTextCallbacks\<close>): each registration whose regular expression matches has its
  callback called, in registration order, and the loop stops after the first match only
  when the option \<^verbatim>\<open>onlyFirstMatch\<close> is set. The result is the list of callbacks called.
\<close>

fun textCallbacks :: "bool \<Rightarrow> (RegExp \<times> 'h) list \<Rightarrow> string \<Rightarrow> 'h list" where
  "textCallbacks first [] txt = []"
| "textCallbacks first ((regexp, callback) # rs) txt =
     (if RegExp_test regexp txt
      then callback # (if first then [] else textCallbacks first rs txt)
      else textCallbacks first rs txt)"

definition runTextCallbacks :: "'h TelegramBot \<Rightarrow> Message \<Rightarrow> 'h list" where
  "runTextCallbacks b msg =
     (case msg_text msg of
        None \<Rightarrow> []
      | Some t \<Rightarrow>
          if t = [] then []
          else textCallbacks (onlyFirstMatch (options b)) (textRegexpCallbacks b) t)"

section \<open>TelegramBotService\<close>

text \<open>
  Handlers are callbacks whose bodies the service never inspects: they are values of a
  type \<open>'h\<close>, and the model records which of them are called, in order. A trigger is a
  string or refers to a \<open>RegExp\<close> object on the heap.
\<close>

record 'h CommandHandler = BotCommand +
  handler :: 'h

datatype Trigger = Str string | Re nat

record 'h MessageHandler =
  trigger :: Trigger
  trigger_handler :: 'h

record 'h TelegramBotService =
  bot_client :: "'h TelegramBot"
  commands :: "'h CommandHandler list"
  messageHandlers :: "'h MessageHandler list"

definition defaultOptions :: ConstructorOptions where
  "defaultOptions = \<lparr>polling = True, onlyFirstMatch = False\<rparr>"

definition TelegramBotService_new :: "string \<Rightarrow> ConstructorOptions \<Rightarrow> 'h TelegramBotService" where
  "TelegramBotService_new tok opts =
     \<lparr>bot_client = TelegramBot_new tok opts, commands = [], messageHandlers = []\<rparr>"

text \<open>
  The test of one trigger in \<open>handleMessage\<close>: its outcome and the runtime after it. A
  string trigger is looked for in the text, both lower-cased; for a \<open>RegExp\<close> trigger
  \<^verbatim>\<open>test\<close> is called on the object, which may change its \<open>lastIndex\<close>. A trigger that is
  neither (an address without an object) takes neither branch of the source.
\<close>

fun triggerTest :: "Runtime \<Rightarrow> Trigger \<Rightarrow> string \<Rightarrow> bool \<times> Runtime" where
  "triggerTest rt (Str t) txt = (String_includes (toLowerCase rt txt) (toLowerCase rt t), rt)"
| "triggerTest rt (Re a) txt =
     (case regexps rt a of
        None \<Rightarrow> (False, rt)
      | Some r \<Rightarrow>
          (fst (RegExp_exec r txt), rt\<lparr>regexps := (regexps rt)(a \<mapsto> snd (RegExp_exec r txt))\<rparr>))"

text \<open>
  The loop of \<open>handleMessage\<close>. It returns the handlers whose trigger was tested, in
  order, the callbacks called (none or one), and the runtime after the tests.
  \<open>handleMessage\<close> returns at once on \<^verbatim>\<open>!msg.text\<close>: the text is missing or is the empty
  string.
\<close>

record 'h Handled =
  tested :: "'h MessageHandler list"
  called :: "'h list"
  runtime :: Runtime

fun handleLoop :: "Runtime \<Rightarrow> 'h MessageHandler list \<Rightarrow> string \<Rightarrow> 'h Handled" where
  "handleLoop rt [] txt = \<lparr>tested = [], called = [], runtime = rt\<rparr>"
| "handleLoop rt (h # hs) txt =
     (if fst (triggerTest rt (trigger h) txt)
      then \<lparr>tested = [h], called = [trigger_handler h],
             runtime = snd (triggerTest rt (trigger h) txt)\<rparr>
      else (let rest = handleLoop (snd (triggerTest rt (trigger h) txt)) hs txt
            in rest\<lparr>tested := h # tested rest\<rparr>))"

definition handleMessage :: "Runtime \<Rightarrow> 'h TelegramBotService \<Rightarrow> Message \<Rightarrow> 'h Handled" where
  "handleMessage rt s msg =
     (case msg_text msg of
        None \<Rightarrow> \<lparr>tested = [], called = [], runtime = rt\<rparr>
      | Some t \<Rightarrow>
          if t = [] then \<lparr>tested = [], called = [], runtime = rt\<rparr>
          else handleLoop rt (messageHandlers s) t)"

definition handleCallbackQuery ::
  "'h TelegramBotService \<Rightarrow> CallbackQuery \<Rightarrow> 'h TelegramBotService" where
  "handleCallbackQuery s query =
     (case query_data query of
        None \<Rightarrow> s
      | Some d \<Rightarrow>
          if d = [] then s
          else s\<lparr>bot_client := send (bot_client s) (AnswerCallbackQuery (query_id query))\<rparr>)"

text \<open>
  \<open>registerCommand\<close> returns the service after the call and the exception raised, if
  any. The command is pushed before the regular expression is built, so it stays in
  \<open>commands\<close> when \<^verbatim>\<open>new RegExp\<close> raises.
\<close>

definition registerCommand ::
  "Runtime \<Rightarrow> 'h TelegramBotService \<Rightarrow> 'h CommandHandler \<Rightarrow>
   'h TelegramBotService \<times> error option" where
  "registerCommand rt s cmd =
     (let s1 = s\<lparr>commands := commands s @ [cmd]\<rparr> in
      case RegExp_new rt (''^/'' @ command cmd) of
        Inl e \<Rightarrow> (s1, Some e)
      | Inr regexp \<Rightarrow> (s1\<lparr>bot_client := onText (bot_client s1) regexp (handler cmd)\<rparr>, None))"

definition registerMessageHandler ::
  "'h TelegramBotService \<Rightarrow> 'h MessageHandler \<Rightarrow> 'h TelegramBotService" where
  "registerMessageHandler s h = s\<lparr>messageHandlers := messageHandlers s @ [h]\<rparr>"

definition setCommands :: "'h TelegramBotService \<Rightarrow> 'h TelegramBotService" where
  "setCommands s =
     (let botCommands =
            map (\<lambda>cmd. \<lparr>command = command cmd, description = description cmd\<rparr>) (commands s)
      in s\<lparr>bot_client := send (bot_client s) (SetMyCommands botCommands)\<rparr>)"

definition sendMessage ::
  "'h TelegramBotService \<Rightarrow> ChatId \<Rightarrow> string \<Rightarrow> 'h TelegramBotService" where
  "sendMessage s chatId txt = s\<lparr>bot_client := send (bot_client s) (SendMessage chatId txt)\<rparr>"

text \<open>
  One update delivered by the transport. For a message the library first emits the
  \<^verbatim>\<open>message\<close> event, to which \<open>initializeEventListeners\<close> has subscribed
  \<open>handleMessage\<close>, and then, when the message has a text, runs its \<^verbatim>\<open>onText\<close>
  registrations. The result lists the callbacks called, in order, the service after and
  the runtime after.
\<close>

datatype 'h Call = TriggerCall 'h | CommandCall 'h

fun processUpdate ::
  "Runtime \<Rightarrow> 'h TelegramBotService \<Rightarrow> Update \<Rightarrow>
   'h Call list \<times> 'h TelegramBotService \<times> Runtime" where
  "processUpdate rt s (MessageUpdate msg) =
     (map TriggerCall (called (handleMessage rt s msg)) @
      map CommandCall (runTextCallbacks (bot_client s) msg),
      s, runtime (handleMessage rt s msg))"
| "processUpdate rt s (CallbackQueryUpdate query) = ([], handleCallbackQuery s query, rt)"

text \<open>
  The operations on a service during the life of the process; each returns the service
  and the runtime after it.
\<close>

datatype 'h Operation =
    RegisterCommand "'h CommandHandler"
  | RegisterMessageHandler "'h MessageHandler"
  | SetCommands
  | Send ChatId string
  | Deliver Update

fun perform ::
  "Runtime \<Rightarrow> 'h TelegramBotService \<Rightarrow> 'h Operation \<Rightarrow> 'h TelegramBotService \<times> Runtime" where
  "perform rt s (RegisterCommand cmd) = (fst (registerCommand rt s cmd), rt)"
| "perform rt s (RegisterMessageHandler h) = (registerMessageHandler s h, rt)"
| "perform rt s SetCommands = (setCommands s, rt)"
| "perform rt s (Send chatId txt) = (sendMessage s chatId txt, rt)"
| "perform rt s (Deliver u) = snd (processUpdate rt s u)"

fun performAll ::
  "Runtime \<Rightarrow> 'h TelegramBotService \<Rightarrow> 'h Operation list \<Rightarrow> 'h TelegramBotService \<times> Runtime" where
  "performAll rt s [] = (s, rt)"
| "performAll rt s (x # xs) = performAll (snd (perform rt s x)) (fst (perform rt s x)) xs"

section \<open>Logger\<close>

text \<open>
  The logger writes to the console and appends to a file. The console is the list of the
  lines written so far; a line coloured by \<^verbatim>\<open>chalk\<close> is the pair of its colour and its
  text. The file system maps a path to a file and its content, or to the error that
  appending to this path raises (a directory, a missing permission); a path that is not
  mapped is a file that does not exist yet, which \<^verbatim>\<open>appendFileSync\<close> creates. The clock
  is a parameter: \<open>now\<close> is the value of \<^verbatim>\<open>new Date().toISOString()\<close>. The field
  \<open>logFile\<close> holds the path as the constructor leaves it, joined to the module's directory.
\<close>

datatype LogLevel = Info | Warn | Error | Debug

datatype Colour = Green | Yellow | Red | Gray

datatype Coloured = Coloured (colour_of: Colour) (text_of: string)

datatype ConsoleLine = ConsoleLog Coloured | ConsoleError Coloured

datatype FsNode = File string | Unwritable string

record World =
  console :: "ConsoleLine list"
  files :: "string \<rightharpoonup> FsNode"

record Logger =
  logger_prefix :: string
  logFile :: string

definition appendFileSync ::
  "(string \<rightharpoonup> FsNode) \<Rightarrow> string \<Rightarrow> string \<Rightarrow> string + (string \<rightharpoonup> FsNode)" where
  "appendFileSync fs path data =
     (case fs path of
        None \<Rightarrow> Inr (fs(path \<mapsto> File data))
      | Some (File content) \<Rightarrow> Inr (fs(path \<mapsto> File (content @ data)))
      | Some (Unwritable e) \<Rightarrow> Inl e)"

text \<open>The \<^verbatim>\<open>default\<close> branch of the source is excluded by the type \<open>LogLevel\<close>.\<close>

fun getColoredMessage :: "LogLevel \<Rightarrow> string \<Rightarrow> Coloured" where
  "getColoredMessage Info message = Coloured Green message"
| "getColoredMessage Warn message = Coloured Yellow message"
| "getColoredMessage Error message = Coloured Red message"
| "getColoredMessage Debug message = Coloured Gray message"

definition log :: "Logger \<Rightarrow> string \<Rightarrow> World \<Rightarrow> LogLevel \<Rightarrow> string \<Rightarrow> World" where
  "log l now w level message =
     (let logMessage =
            ''['' @ now @ '']'' @
            (if length (logger_prefix l) > 0 then logger_prefix l @ '' '' else []) @
            '': '' @ message;
          coloredMessage = getColoredMessage level logMessage;
          w1 = w\<lparr>console := console w @ [ConsoleLog coloredMessage]\<rparr>
      in case appendFileSync (files w1) (logFile l) (logMessage @ [CHR 0x0A]) of
           Inr fs \<Rightarrow> w1\<lparr>files := fs\<rparr>
         | Inl e \<Rightarrow>
             w1\<lparr>console := console w1 @
               [ConsoleError
                  (Coloured Red (''[LOGGER ERROR]: Unable to write to file - '' @ e))]\<rparr>)"

section \<open>envConfig\<close>

text \<open>
  \<^verbatim>\<open>process.env\<close> maps a variable to its value, a string, when the variable is set.
  \<open>orElse v d\<close> is \<^verbatim>\<open>v || d\<close> on such a value: \<open>d\<close> when \<open>v\<close> is undefined or the
  empty string.
\<close>

record EnvConfig =
  telegramToken :: string
  googleKeyFilePath :: string
  spreadsheetId :: string

definition orElse :: "string option \<Rightarrow> string \<Rightarrow> string" where
  "orElse v d = (case v of None \<Rightarrow> d | Some x \<Rightarrow> if x = [] then d else x)"

definition envConfig :: "(string \<rightharpoonup> string) \<Rightarrow> EnvConfig" where
  "envConfig env =
     \<lparr>telegramToken = orElse (env ''TELEGRAM_TOKEN'') [],
      googleKeyFilePath = orElse (env ''GOOGLE_KEY_FILE_PATH'') [],
      spreadsheetId = orElse (env ''GOOGLE_SPREADSHEET_ID'') []\<rparr>"

section \<open>Notions of the specification\<close>




text \<open>A message carries no text body: the text is missing or empty.\<close>

definition noText :: "Message \<Rightarrow> bool" where
  "noText msg = (msg_text msg = None \<or> msg_text msg = Some [])"

text \<open>
  A command name is plain when none of its characters is a syntax character of the
  pattern language, so that \<^verbatim>\<open>^/name\<close> reads the name literally.
\<close>

definition plainName :: "string \<Rightarrow> bool" where
  "plainName name = list_all (\<lambda>c. c \<notin> set (CHR 0x5C # ''^$.*+?()[]{}|'')) name"

text \<open>
  A text matches a trigger, whatever the state of the trigger: a string trigger occurs in
  the text, both lower-cased; the pattern of a \<open>RegExp\<close> trigger matches the text at some
  index. A trigger is stateless when its test depends on the text only: a string, or a
  \<open>RegExp\<close> object with neither the flag \<^verbatim>\<open>g\<close> nor the flag \<^verbatim>\<open>y\<close>.
\<close>

fun matchesText :: "Runtime \<Rightarrow> Trigger \<Rightarrow> string \<Rightarrow> bool" where
  "matchesText rt (Str t) txt = String_includes (toLowerCase rt txt) (toLowerCase rt t)"
| "matchesText rt (Re a) txt =
     (case regexps rt a of
        None \<Rightarrow> False
      | Some r \<Rightarrow> firstMatch (matcher r txt) False [0 ..< Suc (length txt)] \<noteq> None)"


section \<open>Data of the examples\<close>

text \<open>
  The runtime of the examples: no \<open>RegExp\<close> object is on its heap. The strings of the
  examples are ASCII and their patterns lie in the fragment, so that its first two fields
  are never consulted.
\<close>

definition exampleRuntime :: Runtime where
  "exampleRuntime =
     \<lparr>lowerCaseUnicode = (\<lambda>s. s), compileOther = (\<lambda>p. Inl SyntaxError), regexps = Map.empty\<rparr>"

text \<open>The object of the literal \<^verbatim>\<open>/hello/g\<close>, before its first use.\<close>

definition helloGlobal :: RegExpObject where
  "helloGlobal =
     \<lparr>matcher = atomsMatcher (map Lit ''hello''), global = True, sticky = False, lastIndex = 0\<rparr>"

section \<open>Registration\<close>

lemma commands_registerCommand:
  "commands (fst (registerCommand rt s cmd)) = commands s @ [cmd]"
  by (simp add: registerCommand_def Let_def split: sum.splits)

lemma messageHandlers_registerCommand:
  "messageHandlers (fst (registerCommand rt s cmd)) = messageHandlers s"
  by (simp add: registerCommand_def Let_def split: sum.splits)

lemma commands_processUpdate: "commands (fst (snd (processUpdate rt s u))) = commands s"
  by (cases u) (simp_all add: handleCallbackQuery_def split: option.splits)

lemma messageHandlers_processUpdate:
  "messageHandlers (fst (snd (processUpdate rt s u))) = messageHandlers s"
  by (cases u) (simp_all add: handleCallbackQuery_def split: option.splits)

lemma commands_perform: "prefix (commands s) (commands (fst (perform rt s x)))"
  by (cases x)
     (simp_all add: commands_registerCommand commands_processUpdate registerMessageHandler_def
        setCommands_def sendMessage_def)

lemma messageHandlers_perform:
  "prefix (messageHandlers s) (messageHandlers (fst (perform rt s x)))"
  by (cases x)
     (simp_all add: messageHandlers_registerCommand messageHandlers_processUpdate
        registerMessageHandler_def setCommands_def sendMessage_def)

lemma commands_performAll: "prefix (commands s) (commands (fst (performAll rt s ops)))"
proof (induction ops arbitrary: rt s)
  case Nil
  show ?case by simp
next
  case (Cons x xs)
  have "prefix (commands s) (commands (fst (perform rt s x)))"
    by (rule commands_perform)
  moreover have "prefix (commands (fst (perform rt s x)))
                   (commands (fst (performAll (snd (perform rt s x)) (fst (perform rt s x)) xs)))"
    by (rule Cons.IH)
  ultimately show ?case
    using prefix_order.order_trans by fastforce
qed

lemma messageHandlers_performAll:
  "prefix (messageHandlers s) (messageHandlers (fst (performAll rt s ops)))"
proof (induction ops arbitrary: rt s)
  case Nil
  show ?case by simp
next
  case (Cons x xs)
  have "prefix (messageHandlers s) (messageHandlers (fst (perform rt s x)))"
    by (rule messageHandlers_perform)
  moreover have "prefix (messageHandlers (fst (perform rt s x)))
                   (messageHandlers
                      (fst (performAll (snd (perform rt s x)) (fst (perform rt s x)) xs)))"
    by (rule Cons.IH)
  ultimately show ?case
    using prefix_order.order_trans by fastforce
qed

text \<open>
  C8. Registration is append-only. A call of \<open>registerCommand\<close> leaves \<open>commands\<close> as it
  was with the new entry added at the end, whether or not the call raises, and does not
  touch \<open>messageHandlers\<close>; a call of \<open>registerMessageHandler\<close> does the same for
  \<open>messageHandlers\<close> and touches neither \<open>commands\<close> nor the transport. Over any
  sequence of operations of the service (registrations, menu publication, sends,
  delivered updates) both sequences only grow at the end: what was registered stays,
  unchanged and at its position.
\<close>

theorem registration_append_only:
  "commands (fst (registerCommand rt s cmd)) = commands s @ [cmd]
   \<and> messageHandlers (fst (registerCommand rt s cmd)) = messageHandlers s
   \<and> messageHandlers (registerMessageHandler s h) = messageHandlers s @ [h]
   \<and> commands (registerMessageHandler s h) = commands s
   \<and> bot_client (registerMessageHandler s h) = bot_client s
   \<and> prefix (commands s) (commands (fst (performAll rt s ops)))
   \<and> prefix (messageHandlers s) (messageHandlers (fst (performAll rt s ops)))"
  by (simp add: commands_registerCommand messageHandlers_registerCommand
      registerMessageHandler_def commands_performAll messageHandlers_performAll)

section \<open>The command menu\<close>

lemma requests_registerCommand:
  "requests (bot_client (fst (registerCommand rt s cmd))) = requests (bot_client s)"
  by (simp add: registerCommand_def Let_def onText_def split: sum.splits)

lemma commands_register_all:
  "commands (fst (performAll rt s (map RegisterCommand cs))) = commands s @ cs"
  by (induction cs arbitrary: s) (simp_all add: commands_registerCommand)

lemma requests_register_all:
  "requests (bot_client (fst (performAll rt s (map RegisterCommand cs)))) =
     requests (bot_client s)"
  by (induction cs arbitrary: s) (simp_all add: requests_registerCommand)

lemma requests_setCommands:
  "requests (bot_client (setCommands s)) =
     requests (bot_client s) @
     [SetMyCommands
        (map (\<lambda>cmd. \<lparr>command = command cmd, description = description cmd\<rparr>) (commands s))]"
  by (simp add: setCommands_def send_def)

lemma commands_setCommands: "commands (setCommands s) = commands s"
  by (simp add: setCommands_def)

text \<open>
  C7, as the code has it. After the calls of \<open>registerCommand\<close> for the descriptors \<open>cs\<close>
  on a new service, in this order and whether or not a call raised, \<open>setCommands\<close> sends
  the transport one menu request, whose list is the \<open>{command, description}\<close> pair of each
  call, one per call and in the order of the calls, and nothing else. The names in the
  list are the names registered, so the list is free of repeated names exactly when the
  names registered were. A second call sends the same list again, and \<open>setCommands\<close>
  changes neither the registered commands nor the triggers nor the \<^verbatim>\<open>onText\<close>
  registrations.
\<close>

theorem setCommands_publishes_registered:
  "requests (bot_client (setCommands
       (fst (performAll rt (TelegramBotService_new tok opts) (map RegisterCommand cs))))) =
     [SetMyCommands
        (map (\<lambda>cmd. \<lparr>command = command cmd, description = description cmd\<rparr>) cs)]
   \<and> requests (bot_client (setCommands (setCommands
       (fst (performAll rt (TelegramBotService_new tok opts) (map RegisterCommand cs)))))) =
     [SetMyCommands
        (map (\<lambda>cmd. \<lparr>command = command cmd, description = description cmd\<rparr>) cs),
      SetMyCommands
        (map (\<lambda>cmd. \<lparr>command = command cmd, description = description cmd\<rparr>) cs)]
   \<and> distinct (map command
        (map (\<lambda>cmd. \<lparr>command = command cmd, description = description cmd\<rparr>) cs)) =
      distinct (map command cs)
   \<and> commands (setCommands s) = commands s
   \<and> messageHandlers (setCommands s) = messageHandlers s
   \<and> textRegexpCallbacks (bot_client (setCommands s)) = textRegexpCallbacks (bot_client s)"
proof -
  let ?s0 = "TelegramBotService_new tok opts :: 'a TelegramBotService"
  let ?s = "fst (performAll rt ?s0 (map RegisterCommand cs))"
  have c: "commands ?s = cs"
    by (simp add: commands_register_all TelegramBotService_new_def)
  have r: "requests (bot_client ?s) = []"
    by (simp add: requests_register_all TelegramBotService_new_def TelegramBot_new_def)
  have one: "requests (bot_client (setCommands ?s)) =
     [SetMyCommands
        (map (\<lambda>cmd. \<lparr>command = command cmd, description = description cmd\<rparr>) cs)]"
    by (simp add: requests_setCommands c r)
  have two: "requests (bot_client (setCommands (setCommands ?s))) =
     [SetMyCommands
        (map (\<lambda>cmd. \<lparr>command = command cmd, description = description cmd\<rparr>) cs),
      SetMyCommands
        (map (\<lambda>cmd. \<lparr>command = command cmd, description = description cmd\<rparr>) cs)]"
    by (simp add: requests_setCommands [of "setCommands ?s"] commands_setCommands one c)
  have names: "distinct (map command
        (map (\<lambda>cmd. \<lparr>command = command cmd, description = description cmd\<rparr>) cs)) =
      distinct (map command cs)"
    by (simp add: comp_def)
  have rest: "commands (setCommands s) = commands s
     \<and> messageHandlers (setCommands s) = messageHandlers s
     \<and> textRegexpCallbacks (bot_client (setCommands s)) = textRegexpCallbacks (bot_client s)"
    by (simp add: setCommands_def send_def)
  from one two names rest show ?thesis by blast
qed

text \<open>
  C7 fails as stated: after two registrations under the name \<open>start\<close> the published list
  holds the same pair twice.
\<close>

theorem setCommands_duplicate_counterexample:
  "requests (bot_client (setCommands
       (fst (performAll exampleRuntime (TelegramBotService_new ''t'' defaultOptions)
          [RegisterCommand \<lparr>command = ''start'', description = ''Start'', handler = ''h1''\<rparr>,
           RegisterCommand \<lparr>command = ''start'', description = ''Start'', handler = ''h2''\<rparr>])))) =
     [SetMyCommands
        [\<lparr>command = ''start'', description = ''Start''\<rparr>,
         \<lparr>command = ''start'', description = ''Start''\<rparr>]]
   \<and> \<not> distinct
        [\<lparr>command = ''start'', description = ''Start''\<rparr>,
         \<lparr>command = ''start'', description = ''Start''\<rparr>]"
  by (simp add: registerCommand_def RegExp_new_def parseAtom_def
      TelegramBotService_new_def TelegramBot_new_def onText_def Let_def setCommands_def
      send_def)

section \<open>Duplicate command names\<close>

text \<open>
  C4, as the code has it. \<open>registerCommand\<close> has no check on the name: it always
  appends. After any sequence of calls on a new service the live entries are the
  registered descriptors, each of them and in order, so their names are pairwise distinct
  exactly when the names registered were.
\<close>

theorem registerCommand_keeps_duplicates:
  "commands (fst (performAll rt s (map RegisterCommand cs))) = commands s @ cs
   \<and> distinct (map command (commands
         (fst (performAll rt (TelegramBotService_new tok opts) (map RegisterCommand cs))))) =
       distinct (map command cs)"
  by (simp add: commands_register_all TelegramBotService_new_def)

text \<open>
  C4 fails as stated: registering two descriptors with the name \<open>start\<close> is not rejected
  (no exception), does not overwrite (the first entry is still there), and leaves two
  live entries with the same name and two \<^verbatim>\<open>onText\<close> registrations.
\<close>

theorem duplicate_name_counterexample:
  "snd (registerCommand exampleRuntime
         (fst (registerCommand exampleRuntime (TelegramBotService_new ''t'' defaultOptions)
                \<lparr>command = ''start'', description = ''first'', handler = ''h1''\<rparr>))
         \<lparr>command = ''start'', description = ''second'', handler = ''h2''\<rparr>) = None
   \<and> commands (fst (performAll exampleRuntime (TelegramBotService_new ''t'' defaultOptions)
         [RegisterCommand \<lparr>command = ''start'', description = ''first'', handler = ''h1''\<rparr>,
          RegisterCommand \<lparr>command = ''start'', description = ''second'', handler = ''h2''\<rparr>])) =
       [\<lparr>command = ''start'', description = ''first'', handler = ''h1''\<rparr>,
        \<lparr>command = ''start'', description = ''second'', handler = ''h2''\<rparr>]
   \<and> \<not> distinct (map command (commands
         (fst (performAll exampleRuntime (TelegramBotService_new ''t'' defaultOptions)
           [RegisterCommand \<lparr>command = ''start'', description = ''first'', handler = ''h1''\<rparr>,
            RegisterCommand \<lparr>command = ''start'', description = ''second'', handler = ''h2''\<rparr>]))))
   \<and> map snd (textRegexpCallbacks (bot_client
         (fst (performAll exampleRuntime (TelegramBotService_new ''t'' defaultOptions)
           [RegisterCommand \<lparr>command = ''start'', description = ''first'', handler = ''h1''\<rparr>,
            RegisterCommand \<lparr>command = ''start'', description = ''second'', handler = ''h2''\<rparr>])))) =
       [''h1'', ''h2'']"
  by (simp add: registerCommand_def RegExp_new_def parseAtom_def
      TelegramBotService_new_def TelegramBot_new_def onText_def Let_def)

section \<open>Containment up to case\<close>








section \<open>Command patterns\<close>

lemma matchHere_lits: "matchHere (map Lit p) b s = prefix p s"
proof (induction p arbitrary: b s)
  case Nil
  show ?case by simp
next
  case (Cons x p)
  show ?case
    by (cases s) (simp_all add: Cons.IH)
qed

lemma matchAnywhere_anchored_False:
  "matchAnywhere (StartOfInput # as) False s = False"
  by (induction s) simp_all

lemma matchAnywhere_anchored:
  "matchAnywhere (StartOfInput # as) True s = matchHere as True s"
  by (cases s) (simp_all add: matchAnywhere_anchored_False)

lemma parsePattern_plain: "plainName name \<Longrightarrow> parsePattern name = Some (map Lit name)"
  by (induction name) (simp_all add: plainName_def parseAtom_def)

lemma RegExp_new_command:
  assumes "plainName name"
  shows "RegExp_new rt (''^/'' @ name) =
           Inr (RegExp (\<lambda>s. matchAnywhere (StartOfInput # Lit (CHR ''/'') # map Lit name) True s))"
  using parsePattern_plain [OF assms] by (simp add: RegExp_new_def parseAtom_def)

lemma command_pattern_test:
  "matchAnywhere (StartOfInput # Lit (CHR ''/'') # map Lit name) True s = prefix (''/'' @ name) s"
proof -
  have "matchAnywhere (StartOfInput # Lit (CHR ''/'') # map Lit name) True s =
        matchHere (map Lit (''/'' @ name)) True s"
    by (simp add: matchAnywhere_anchored)
  then show ?thesis
    by (simp only: matchHere_lits)
qed

lemma registerCommand_plain:
  assumes "plainName (command cmd)"
  shows "registerCommand rt s cmd =
     (s\<lparr>commands := commands s @ [cmd],
        bot_client := onText (bot_client s) (RegExp (\<lambda>txt. prefix (''/'' @ command cmd) txt))
                        (handler cmd)\<rparr>, None)"
  using RegExp_new_command [OF assms]
  by (simp add: registerCommand_def Let_def command_pattern_test)

lemma callbacks_register_all:
  "list_all (\<lambda>c. plainName (command c)) cs \<Longrightarrow>
   textRegexpCallbacks (bot_client (fst (performAll rt s (map RegisterCommand cs)))) =
     textRegexpCallbacks (bot_client s) @
     map (\<lambda>c. (RegExp (\<lambda>txt. prefix (''/'' @ command c) txt), handler c)) cs"
  by (induction cs arbitrary: s) (simp_all add: registerCommand_plain onText_def)

lemma options_register_all:
  "options (bot_client (fst (performAll rt s (map RegisterCommand cs)))) =
     options (bot_client s)"
  by (induction cs arbitrary: s)
     (simp_all add: registerCommand_def Let_def onText_def split: sum.splits)

lemma messageHandlers_register_all:
  "messageHandlers (fst (performAll rt s (map RegisterCommand cs))) = messageHandlers s"
  by (induction cs arbitrary: s) (simp_all add: messageHandlers_registerCommand)

lemma textCallbacks_all:
  "textCallbacks False rs s = map snd (filter (\<lambda>rh. RegExp_test (fst rh) s) rs)"
  by (induction rs) auto

lemma textCallbacks_first:
  "textCallbacks True rs s = take 1 (map snd (filter (\<lambda>rh. RegExp_test (fst rh) s) rs))"
  by (induction rs) auto

lemma textCallbacks_filter:
  "textCallbacks first rs s =
     (if first then take 1 else id) (map snd (filter (\<lambda>rh. RegExp_test (fst rh) s) rs))"
  by (cases first) (simp_all add: textCallbacks_all textCallbacks_first)

lemma filter_registrations:
  "map snd (filter (\<lambda>rh. RegExp_test (fst rh) s)
       (map (\<lambda>c. (RegExp (\<lambda>txt. prefix (''/'' @ command c) txt), handler c)) cs)) =
   map handler (filter (\<lambda>c. prefix (''/'' @ command c) s) cs)"
  by (induction cs) simp_all

text \<open>
  C2, as the code has it. Let the commands \<open>cs\<close>, all with plain names, be registered on
  a new service, and let a message with the non-empty text \<open>t\<close> arrive. A command matches
  exactly when \<open>t\<close> begins with \<open>/\<close> followed by its name (the pattern \<^verbatim>\<open>^/name\<close> is
  anchored at the start and says nothing about what follows). The transport calls the
  handlers of the matching commands in registration order: all of them, unless the option
  \<^verbatim>\<open>onlyFirstMatch\<close> was given to the constructor, in which case only the first one.
\<close>

theorem command_dispatch:
  assumes "list_all (\<lambda>c. plainName (command c)) cs"
    and "msg_text msg = Some t" and "t \<noteq> []"
  shows "fst (processUpdate rt'
            (fst (performAll rt (TelegramBotService_new tok opts) (map RegisterCommand cs)))
            (MessageUpdate msg)) =
         map CommandCall
           ((if onlyFirstMatch opts then take 1 else id)
              (map handler (filter (\<lambda>c. prefix (''/'' @ command c) t) cs)))"
proof -
  let ?s = "fst (performAll rt (TelegramBotService_new tok opts) (map RegisterCommand cs))"
  have mh: "messageHandlers ?s = []"
    by (simp add: messageHandlers_register_all TelegramBotService_new_def)
  have op: "options (bot_client ?s) = opts"
    by (simp add: options_register_all TelegramBotService_new_def TelegramBot_new_def)
  have cb: "textRegexpCallbacks (bot_client ?s) =
      map (\<lambda>c. (RegExp (\<lambda>txt. prefix (''/'' @ command c) txt), handler c)) cs"
    using callbacks_register_all [OF assms(1)]
    by (simp add: TelegramBotService_new_def TelegramBot_new_def)
  have hm: "called (handleMessage rt' ?s msg) = []"
    using assms(2) by (simp add: handleMessage_def mh)
  have tc: "textCallbacks (onlyFirstMatch (options (bot_client ?s)))
              (textRegexpCallbacks (bot_client ?s)) t =
            (if onlyFirstMatch opts then take 1 else id)
              (map handler (filter (\<lambda>c. prefix (''/'' @ command c) t) cs))"
    unfolding op cb textCallbacks_filter filter_registrations ..
  have "fst (processUpdate rt' ?s (MessageUpdate msg)) =
        map CommandCall (textCallbacks (onlyFirstMatch (options (bot_client ?s)))
              (textRegexpCallbacks (bot_client ?s)) t)"
    using assms(2,3) by (simp add: hm runTextCallbacks_def)
  then show ?thesis
    unfolding tc .
qed

text \<open>
  With \<^verbatim>\<open>onlyFirstMatch\<close> set, \<open>add\<close> registered before \<open>addword\<close> takes the message
  \<^verbatim>\<open>/addword extra\<close> alone.
\<close>

theorem command_dispatch_witness:
  "list_all (\<lambda>c. plainName (command c))
     [\<lparr>command = ''add'', description = ''a'', handler = ''h1''\<rparr>,
      \<lparr>command = ''addword'', description = ''b'', handler = ''h2''\<rparr>]
   \<and> fst (processUpdate exampleRuntime
        (fst (performAll exampleRuntime
           (TelegramBotService_new ''t'' \<lparr>polling = True, onlyFirstMatch = True\<rparr>)
           (map RegisterCommand
              [\<lparr>command = ''add'', description = ''a'', handler = ''h1''\<rparr>,
               \<lparr>command = ''addword'', description = ''b'', handler = ''h2''\<rparr>])))
        (MessageUpdate \<lparr>chat_id = 7, msg_text = Some ''/addword extra''\<rparr>)) =
      [CommandCall ''h1'']"
  using command_dispatch
    [of "[\<lparr>command = ''add'', description = ''a'', handler = ''h1''\<rparr>,
          \<lparr>command = ''addword'', description = ''b'', handler = ''h2''\<rparr>]"
        "\<lparr>chat_id = 7, msg_text = Some ''/addword extra''\<rparr>" "''/addword extra''"
        exampleRuntime exampleRuntime
        "''t''" "\<lparr>polling = True, onlyFirstMatch = True\<rparr>"]
  by (simp add: plainName_def)

text \<open>
  C2 fails as stated, twice. The name is put into the pattern as it is: the command
  \<^verbatim>\<open>a.c\<close> is called for the text \<^verbatim>\<open>/abc\<close>, which does not begin with \<^verbatim>\<open>/a.c\<close>. And
  with the options the service is constructed with by default (\<open>defaultOptions\<close>), the
  message \<^verbatim>\<open>/addword extra\<close> calls the handler of \<open>add\<close> and then the handler of
  \<open>addword\<close>: the first registered name does not win.
\<close>

theorem command_match_counterexample:
  "fst (processUpdate exampleRuntime
        (fst (performAll exampleRuntime (TelegramBotService_new ''t'' defaultOptions)
           [RegisterCommand \<lparr>command = ''a.c'', description = ''d'', handler = ''h1''\<rparr>]))
        (MessageUpdate \<lparr>chat_id = 7, msg_text = Some ''/abc''\<rparr>)) = [CommandCall ''h1'']
   \<and> \<not> prefix ''/a.c'' ''/abc''
   \<and> fst (processUpdate exampleRuntime
        (fst (performAll exampleRuntime (TelegramBotService_new ''t'' defaultOptions)
           [RegisterCommand \<lparr>command = ''add'', description = ''a'', handler = ''h1''\<rparr>,
            RegisterCommand \<lparr>command = ''addword'', description = ''b'', handler = ''h2''\<rparr>]))
        (MessageUpdate \<lparr>chat_id = 7, msg_text = Some ''/addword extra''\<rparr>)) =
      [CommandCall ''h1'', CommandCall ''h2'']"
  by (simp add: registerCommand_def RegExp_new_def parseAtom_def
      TelegramBotService_new_def TelegramBot_new_def onText_def Let_def defaultOptions_def
      runTextCallbacks_def handleMessage_def isLineTerminator_def)

section \<open>Commands and triggers on one message\<close>




section \<open>The two readings of a pattern agree\<close>

text \<open>
  A \<open>RegExp\<close> object without flags whose pattern lies in the fragment finds a match
  exactly when the regular expression that \<open>RegExp_new\<close> builds from the same atoms does.
\<close>

lemma firstMatch_somewhere:
  "(firstMatch m False is \<noteq> None) = (\<exists>i \<in> set is. m i \<noteq> None)"
  by (induction "is") (auto split: option.splits)

lemma matchAnywhere_somewhere:
  "matchAnywhere as b s =
     (matchHere as b s \<or> (\<exists>i. 0 < i \<and> i \<le> length s \<and> matchHere as False (drop i s)))"
proof (induction s arbitrary: b)
  case Nil
  show ?case by simp
next
  case (Cons c s)
  have "(\<exists>i. 0 < i \<and> i \<le> length (c # s) \<and> matchHere as False (drop i (c # s))) =
        (\<exists>j. j \<le> length s \<and> matchHere as False (drop j s))"
  proof
    assume "\<exists>i. 0 < i \<and> i \<le> length (c # s) \<and> matchHere as False (drop i (c # s))"
    then obtain i where i: "0 < i" "i \<le> length (c # s)" "matchHere as False (drop i (c # s))"
      by blast
    from i(1) obtain j where j: "i = Suc j"
      by (cases i) simp_all
    with i(2,3) show "\<exists>j. j \<le> length s \<and> matchHere as False (drop j s)"
      by auto
  next
    assume "\<exists>j. j \<le> length s \<and> matchHere as False (drop j s)"
    then obtain j where "j \<le> length s" "matchHere as False (drop j s)"
      by blast
    then have "0 < Suc j \<and> Suc j \<le> length (c # s) \<and> matchHere as False (drop (Suc j) (c # s))"
      by simp
    then show "\<exists>i. 0 < i \<and> i \<le> length (c # s) \<and> matchHere as False (drop i (c # s))"
      by blast
  qed
  also have "\<dots> = (matchHere as False s
       \<or> (\<exists>i. 0 < i \<and> i \<le> length s \<and> matchHere as False (drop i s)))"
  proof
    assume "\<exists>j. j \<le> length s \<and> matchHere as False (drop j s)"
    then obtain j where j: "j \<le> length s" "matchHere as False (drop j s)"
      by blast
    show "matchHere as False s
       \<or> (\<exists>i. 0 < i \<and> i \<le> length s \<and> matchHere as False (drop i s))"
    proof (cases "j = 0")
      case True
      with j show ?thesis by simp
    next
      case False
      with j show ?thesis by auto
    qed
  next
    assume "matchHere as False s
       \<or> (\<exists>i. 0 < i \<and> i \<le> length s \<and> matchHere as False (drop i s))"
    then show "\<exists>j. j \<le> length s \<and> matchHere as False (drop j s)"
    proof
      assume "matchHere as False s"
      then have "0 \<le> length s \<and> matchHere as False (drop 0 s)"
        by simp
      then show ?thesis by blast
    next
      assume "\<exists>i. 0 < i \<and> i \<le> length s \<and> matchHere as False (drop i s)"
      then show ?thesis by blast
    qed
  qed
  finally have later: "(\<exists>i. 0 < i \<and> i \<le> length (c # s) \<and> matchHere as False (drop i (c # s))) =
      matchAnywhere as False s"
    by (simp only: Cons.IH [of False])
  show ?case
    unfolding later by simp
qed

lemma atomsMatcher_agrees:
  "(firstMatch (atomsMatcher as s) False [0 ..< Suc (length s)] \<noteq> None) =
     matchAnywhere as True s"
proof -
  have "(firstMatch (atomsMatcher as s) False [0 ..< Suc (length s)] \<noteq> None) =
        (\<exists>i. i \<le> length s \<and> matchHere as (i = 0) (drop i s))"
    by (simp only: firstMatch_somewhere set_upt) (auto simp: atomsMatcher_def less_Suc_eq_le)
  also have "\<dots> = (matchHere as True s
       \<or> (\<exists>i. 0 < i \<and> i \<le> length s \<and> matchHere as False (drop i s)))"
  proof
    assume "\<exists>i. i \<le> length s \<and> matchHere as (i = 0) (drop i s)"
    then obtain i where i: "i \<le> length s" "matchHere as (i = 0) (drop i s)"
      by blast
    show "matchHere as True s
       \<or> (\<exists>i. 0 < i \<and> i \<le> length s \<and> matchHere as False (drop i s))"
    proof (cases "i = 0")
      case True
      with i show ?thesis by simp
    next
      case False
      with i show ?thesis by auto
    qed
  next
    assume "matchHere as True s
       \<or> (\<exists>i. 0 < i \<and> i \<le> length s \<and> matchHere as False (drop i s))"
    then show "\<exists>i. i \<le> length s \<and> matchHere as (i = 0) (drop i s)"
    proof
      assume "matchHere as True s"
      then have "0 \<le> length s \<and> matchHere as (0 = (0::nat)) (drop 0 s)"
        by simp
      then show ?thesis by blast
    next
      assume "\<exists>i. 0 < i \<and> i \<le> length s \<and> matchHere as False (drop i s)"
      then obtain i where "0 < i" "i \<le> length s" "matchHere as False (drop i s)"
        by blast
      then have "i \<le> length s \<and> matchHere as (i = 0) (drop i s)"
        by simp
      then show ?thesis by blast
    qed
  qed
  also have "\<dots> = matchAnywhere as True s"
    by (rule matchAnywhere_somewhere [symmetric])
  finally show ?thesis .
qed

section \<open>The test of a trigger\<close>

lemma firstMatch_None: "\<forall>i \<in> set is. m i = None \<Longrightarrow> firstMatch m stick is = None"
  by (induction "is") auto

lemma firstMatch_nowhere:
  assumes "firstMatch m False [0 ..< n] = None"
  shows "firstMatch m stick [i ..< n] = None"
proof -
  have "\<forall>j \<in> set [0 ..< n]. m j = None"
  proof (rule ccontr)
    assume "\<not> (\<forall>j \<in> set [0 ..< n]. m j = None)"
    then obtain j where j: "j \<in> set [0 ..< n]" "m j \<noteq> None"
      by blast
    have "firstMatch m False js \<noteq> None" if "j \<in> set js" for js
      using that j(2) by (induction js) (auto split: option.splits)
    with j(1) assms show False
      by blast
  qed
  then have "\<forall>j \<in> set [i ..< n]. m j = None"
    by simp
  then show ?thesis
    by (rule firstMatch_None)
qed


lemma RegExp_exec_nowhere:
  "firstMatch (matcher r s) False [0 ..< Suc (length s)] = None \<Longrightarrow> \<not> fst (RegExp_exec r s)"
  using firstMatch_nowhere [of "matcher r s" "Suc (length s)" "sticky r"]
  by (simp add: RegExp_exec_def Let_def del: upt_Suc)

lemma matcher_RegExp_exec: "matcher (snd (RegExp_exec r s)) = matcher r"
  by (simp add: RegExp_exec_def Let_def split: option.splits)


lemma triggerTest_nowhere: "\<not> matchesText rt tr s \<Longrightarrow> \<not> fst (triggerTest rt tr s)"
proof (cases tr)
  case (Str t)
  assume "\<not> matchesText rt tr s"
  with Str show ?thesis by simp
next
  case (Re a)
  assume n: "\<not> matchesText rt tr s"
  show ?thesis
  proof (cases "regexps rt a")
    case None
    with Re show ?thesis by simp
  next
    case (Some r)
    with n Re have "firstMatch (matcher r s) False [0 ..< Suc (length s)] = None"
      by (simp del: upt_Suc)
    then have "\<not> fst (RegExp_exec r s)"
      by (rule RegExp_exec_nowhere)
    with Re Some show ?thesis by simp
  qed
qed

lemma matchesText_after_test:
  "matchesText (snd (triggerTest rt tr s)) tr' s' = matchesText rt tr' s'"
proof (cases tr)
  case (Str t)
  then show ?thesis by simp
next
  case (Re a)
  show ?thesis
  proof (cases "regexps rt a")
    case None
    with Re show ?thesis by simp
  next
    case (Some r)
    let ?rt = "rt\<lparr>regexps := (regexps rt)(a \<mapsto> snd (RegExp_exec r s))\<rparr>"
    have after: "snd (triggerTest rt tr s) = ?rt"
      using Re Some by simp
    have lower: "toLowerCase ?rt x = toLowerCase rt x" for x
      by (simp add: toLowerCase_def)
    have "matchesText ?rt tr' s' = matchesText rt tr' s'"
    proof (cases tr')
      case (Str t')
      then show ?thesis by (simp add: lower)
    next
      case (Re b)
      then show ?thesis
        using Some by (simp add: matcher_RegExp_exec del: upt_Suc)
    qed
    with after show ?thesis by simp
  qed
qed

section \<open>The first matching trigger\<close>


lemma handleLoop_no_match:
  "\<forall>x \<in> set hs. \<not> matchesText rt (trigger x) s \<Longrightarrow>
   called (handleLoop rt hs s) = [] \<and> tested (handleLoop rt hs s) = hs"
proof (induction hs arbitrary: rt)
  case Nil
  show ?case by simp
next
  case (Cons h hs)
  have no: "\<not> fst (triggerTest rt (trigger h) s)"
    using Cons.prems by (simp add: triggerTest_nowhere)
  have "\<forall>x \<in> set hs. \<not> matchesText (snd (triggerTest rt (trigger h) s)) (trigger x) s"
    using Cons.prems by (simp add: matchesText_after_test)
  then have "called (handleLoop (snd (triggerTest rt (trigger h) s)) hs s) = []
      \<and> tested (handleLoop (snd (triggerTest rt (trigger h) s)) hs s) = hs"
    by (rule Cons.IH)
  with no show ?case
    by (simp add: Let_def)
qed




section \<open>String triggers and containment\<close>



section \<open>Messages that match nothing\<close>

lemma textCallbacks_no_match:
  "\<forall>rh \<in> set rs. \<not> RegExp_test (fst rh) s \<Longrightarrow> textCallbacks first rs s = []"
  by (induction rs) auto

text \<open>
  C6. A message without a text (none, or the empty string), and a message whose text
  matches none of the patterns registered for the commands and none of the triggers, calls
  no handler and leaves the service as it was; in particular no request is sent to the
  chat service, so there is no reply. \<open>processUpdate\<close> has no error result on a message.
  A message without a text leaves the runtime as it was, too.
\<close>

theorem unmatched_message_is_ignored:
  "(noText msg \<longrightarrow> processUpdate rt s (MessageUpdate msg) = ([], s, rt))
   \<and> (msg_text msg = Some t
        \<and> (\<forall>rh \<in> set (textRegexpCallbacks (bot_client s)). \<not> RegExp_test (fst rh) t)
        \<and> (\<forall>h \<in> set (messageHandlers s). \<not> matchesText rt (trigger h) t) \<longrightarrow>
      fst (processUpdate rt s (MessageUpdate msg)) = []
      \<and> fst (snd (processUpdate rt s (MessageUpdate msg))) = s)"
proof -
  have a: "noText msg \<longrightarrow> processUpdate rt s (MessageUpdate msg) = ([], s, rt)"
    by (auto simp: noText_def handleMessage_def runTextCallbacks_def)
  have b: "fst (processUpdate rt s (MessageUpdate msg)) = []
      \<and> fst (snd (processUpdate rt s (MessageUpdate msg))) = s"
    if t: "msg_text msg = Some t"
      and c: "\<forall>rh \<in> set (textRegexpCallbacks (bot_client s)). \<not> RegExp_test (fst rh) t"
      and h: "\<forall>h \<in> set (messageHandlers s). \<not> matchesText rt (trigger h) t"
  proof -
    have "called (handleMessage rt s msg) = []"
      using t handleLoop_no_match [OF h] by (simp add: handleMessage_def)
    moreover have "runTextCallbacks (bot_client s) msg = []"
      using t textCallbacks_no_match [OF c] by (simp add: runTextCallbacks_def)
    ultimately show ?thesis
      by simp
  qed
  from a b show ?thesis by blast
qed

text \<open>
  An instance with a command, a string trigger and the \<open>RegExp\<close> trigger \<^verbatim>\<open>/hello/g\<close>
  whose \<open>lastIndex\<close> an earlier message has left at 5.
\<close>

theorem unmatched_message_is_ignored_witness:
  "(let rt = exampleRuntime\<lparr>regexps := [0 \<mapsto> helloGlobal\<lparr>lastIndex := 5\<rparr>]\<rparr>;
        s = fst (performAll rt (TelegramBotService_new ''t'' defaultOptions)
              [RegisterCommand \<lparr>command = ''start'', description = ''d'', handler = ''h1''\<rparr>,
               RegisterMessageHandler \<lparr>trigger = Str ''hello'', trigger_handler = ''h2''\<rparr>,
               RegisterMessageHandler \<lparr>trigger = Re 0, trigger_handler = ''h3''\<rparr>])
    in noText \<lparr>chat_id = 7, msg_text = None\<rparr>
       \<and> processUpdate rt s (MessageUpdate \<lparr>chat_id = 7, msg_text = None\<rparr>) = ([], s, rt)
       \<and> noText \<lparr>chat_id = 7, msg_text = Some []\<rparr>
       \<and> processUpdate rt s (MessageUpdate \<lparr>chat_id = 7, msg_text = Some []\<rparr>) = ([], s, rt)
       \<and> list_all (\<lambda>rh. \<not> RegExp_test (fst rh) ''good morning'')
             (textRegexpCallbacks (bot_client s))
       \<and> list_all (\<lambda>h. \<not> matchesText rt (trigger h) ''good morning'') (messageHandlers s)
       \<and> fst (processUpdate rt s
                (MessageUpdate \<lparr>chat_id = 7, msg_text = Some ''good morning''\<rparr>)) = []
       \<and> fst (snd (processUpdate rt s
                (MessageUpdate \<lparr>chat_id = 7, msg_text = Some ''good morning''\<rparr>))) = s)"
proof -
  let ?rt = "exampleRuntime\<lparr>regexps := [0 \<mapsto> helloGlobal\<lparr>lastIndex := 5\<rparr>]\<rparr>"
  let ?s = "fst (performAll ?rt (TelegramBotService_new ''t'' defaultOptions)
              [RegisterCommand \<lparr>command = ''start'', description = ''d'', handler = ''h1''\<rparr>,
               RegisterMessageHandler \<lparr>trigger = Str ''hello'', trigger_handler = ''h2''\<rparr>,
               RegisterMessageHandler \<lparr>trigger = Re 0, trigger_handler = ''h3''\<rparr>])"
  have cb: "\<forall>rh \<in> set (textRegexpCallbacks (bot_client ?s)).
             \<not> RegExp_test (fst rh) ''good morning''"
    by (simp add: registerCommand_def RegExp_new_def parseAtom_def
        TelegramBotService_new_def TelegramBot_new_def onText_def Let_def
        registerMessageHandler_def)
  have mh: "\<forall>h \<in> set (messageHandlers ?s). \<not> matchesText ?rt (trigger h) ''good morning''"
    by (simp add: registerCommand_def RegExp_new_def parseAtom_def
        TelegramBotService_new_def TelegramBot_new_def onText_def Let_def
        registerMessageHandler_def toLowerCase_def toLowerChar_def isASCII_def
        helloGlobal_def atomsMatcher_def upt_rec [of 0])
  have n1: "noText \<lparr>chat_id = 7, msg_text = None\<rparr>"
    by (simp add: noText_def)
  have n2: "noText \<lparr>chat_id = 7, msg_text = Some []\<rparr>"
    by (simp add: noText_def)
  have r1: "processUpdate ?rt ?s (MessageUpdate \<lparr>chat_id = 7, msg_text = None\<rparr>) =
           ([], ?s, ?rt)"
    using n1 unmatched_message_is_ignored [of "\<lparr>chat_id = 7, msg_text = None\<rparr>" ?rt ?s]
    by blast
  have r2: "processUpdate ?rt ?s (MessageUpdate \<lparr>chat_id = 7, msg_text = Some []\<rparr>) =
           ([], ?s, ?rt)"
    using n2 unmatched_message_is_ignored [of "\<lparr>chat_id = 7, msg_text = Some []\<rparr>" ?rt ?s]
    by blast
  have p: "msg_text \<lparr>chat_id = 7, msg_text = Some ''good morning''\<rparr> = Some ''good morning''"
    by simp
  have r3: "fst (processUpdate ?rt ?s
                (MessageUpdate \<lparr>chat_id = 7, msg_text = Some ''good morning''\<rparr>)) = []
       \<and> fst (snd (processUpdate ?rt ?s
                (MessageUpdate \<lparr>chat_id = 7, msg_text = Some ''good morning''\<rparr>))) = ?s"
    using p cb mh unmatched_message_is_ignored
      [of "\<lparr>chat_id = 7, msg_text = Some ''good morning''\<rparr>" ?rt ?s "''good morning''"]
    by blast
  from cb mh n1 n2 r1 r2 r3 show ?thesis
    unfolding Let_def list_all_iff by blast
qed

section \<open>Configuration defaults\<close>

text \<open>
  C9. Each of the three settings is the empty string when its environment variable is not
  set. \<open>envConfig\<close> is a total function into a record of three strings: it has no error
  result.
\<close>

theorem envConfig_defaults:
  "(env ''TELEGRAM_TOKEN'' = None \<longrightarrow> telegramToken (envConfig env) = [])
   \<and> (env ''GOOGLE_KEY_FILE_PATH'' = None \<longrightarrow> googleKeyFilePath (envConfig env) = [])
   \<and> (env ''GOOGLE_SPREADSHEET_ID'' = None \<longrightarrow> spreadsheetId (envConfig env) = [])"
  by (simp add: envConfig_def orElse_def)

theorem envConfig_defaults_witness:
  "Map.empty ''TELEGRAM_TOKEN'' = (None :: string option)
   \<and> Map.empty ''GOOGLE_KEY_FILE_PATH'' = (None :: string option)
   \<and> Map.empty ''GOOGLE_SPREADSHEET_ID'' = (None :: string option)
   \<and> envConfig Map.empty =
       \<lparr>telegramToken = [], googleKeyFilePath = [], spreadsheetId = []\<rparr>
   \<and> [''GOOGLE_SPREADSHEET_ID'' \<mapsto> ''sheet1''] ''TELEGRAM_TOKEN'' = None
   \<and> telegramToken (envConfig [''GOOGLE_SPREADSHEET_ID'' \<mapsto> ''sheet1'']) = []
   \<and> spreadsheetId (envConfig [''GOOGLE_SPREADSHEET_ID'' \<mapsto> ''sheet1'']) = ''sheet1''"
  using envConfig_defaults [of Map.empty]
    envConfig_defaults [of "[''GOOGLE_SPREADSHEET_ID'' \<mapsto> ''sheet1'']"]
  by (simp add: envConfig_def orElse_def)


section \<open>The log line\<close>

lemma text_of_getColoredMessage: "text_of (getColoredMessage level m) = m"
  by (cases level) simp_all

lemma files_log:
  "files (log l now w level m) =
     (case appendFileSync (files w) (logFile l)
             (''['' @ now @ '']'' @
              (if logger_prefix l = [] then [] else logger_prefix l @ '' '') @
              '': '' @ m @ [CHR 0x0A]) of
        Inr fs \<Rightarrow> fs
      | Inl e \<Rightarrow> files w)"
  by (simp add: log_def Let_def split: sum.splits)

text \<open>
  C10. The file after \<open>log\<close> is the same for every level. The line appended to the log
  file is \<open>[now]\<close>, the prefix followed by a space when the prefix is not empty, \<open>: \<close>,
  the message and a newline; the level is not in it. When the append raises, the file
  system is unchanged and the error is written to the console in red after the line
  itself; \<open>log\<close> returns normally in every case. The level decides the colour of the
  console line only: the texts written to the console are the same for every level.
\<close>

theorem log_line_ignores_level:
  "files (log l now w level m) = files (log l now w level' m)
   \<and> (files w (logFile l) = Some (File content) \<longrightarrow>
        files (log l now w level m) =
          (files w)(logFile l \<mapsto>
             File (content @ ''['' @ now @ '']'' @
                   (if logger_prefix l = [] then [] else logger_prefix l @ '' '') @
                   '': '' @ m @ [CHR 0x0A])))
   \<and> (files w (logFile l) = None \<longrightarrow>
        files (log l now w level m) =
          (files w)(logFile l \<mapsto>
             File (''['' @ now @ '']'' @
                   (if logger_prefix l = [] then [] else logger_prefix l @ '' '') @
                   '': '' @ m @ [CHR 0x0A])))
   \<and> (files w (logFile l) = Some (Unwritable e) \<longrightarrow>
        files (log l now w level m) = files w
        \<and> console (log l now w level m) =
            console w @
            [ConsoleLog (getColoredMessage level
               (''['' @ now @ '']'' @
                (if logger_prefix l = [] then [] else logger_prefix l @ '' '') @
                '': '' @ m)),
             ConsoleError
               (Coloured Red (''[LOGGER ERROR]: Unable to write to file - '' @ e))])
   \<and> ((\<forall>e. files w (logFile l) \<noteq> Some (Unwritable e)) \<longrightarrow>
        console (log l now w level m) =
          console w @
          [ConsoleLog (getColoredMessage level
             (''['' @ now @ '']'' @
              (if logger_prefix l = [] then [] else logger_prefix l @ '' '') @
              '': '' @ m))])
   \<and> map (\<lambda>c. case c of ConsoleLog x \<Rightarrow> text_of x | ConsoleError x \<Rightarrow> text_of x)
        (console (log l now w level m)) =
      map (\<lambda>c. case c of ConsoleLog x \<Rightarrow> text_of x | ConsoleError x \<Rightarrow> text_of x)
        (console (log l now w level' m))"
proof -
  have a: "files (log l now w level m) = files (log l now w level' m)"
    by (simp add: files_log)
  have b: "files w (logFile l) = Some (File content) \<longrightarrow>
        files (log l now w level m) =
          (files w)(logFile l \<mapsto>
             File (content @ ''['' @ now @ '']'' @
                   (if logger_prefix l = [] then [] else logger_prefix l @ '' '') @
                   '': '' @ m @ [CHR 0x0A]))"
    by (simp add: files_log appendFileSync_def)
  have c: "files w (logFile l) = None \<longrightarrow>
        files (log l now w level m) =
          (files w)(logFile l \<mapsto>
             File (''['' @ now @ '']'' @
                   (if logger_prefix l = [] then [] else logger_prefix l @ '' '') @
                   '': '' @ m @ [CHR 0x0A]))"
    by (simp add: files_log appendFileSync_def)
  have d: "files w (logFile l) = Some (Unwritable e) \<longrightarrow>
        files (log l now w level m) = files w
        \<and> console (log l now w level m) =
            console w @
            [ConsoleLog (getColoredMessage level
               (''['' @ now @ '']'' @
                (if logger_prefix l = [] then [] else logger_prefix l @ '' '') @
                '': '' @ m)),
             ConsoleError
               (Coloured Red (''[LOGGER ERROR]: Unable to write to file - '' @ e))]"
    by (simp add: log_def Let_def appendFileSync_def)
  have f: "(\<forall>e. files w (logFile l) \<noteq> Some (Unwritable e)) \<longrightarrow>
        console (log l now w level m) =
          console w @
          [ConsoleLog (getColoredMessage level
             (''['' @ now @ '']'' @
              (if logger_prefix l = [] then [] else logger_prefix l @ '' '') @
              '': '' @ m))]"
    by (simp add: log_def Let_def appendFileSync_def split: option.splits FsNode.splits)
  have g: "map (\<lambda>c. case c of ConsoleLog x \<Rightarrow> text_of x | ConsoleError x \<Rightarrow> text_of x)
        (console (log l now w level m)) =
      map (\<lambda>c. case c of ConsoleLog x \<Rightarrow> text_of x | ConsoleError x \<Rightarrow> text_of x)
        (console (log l now w level' m))"
    by (simp add: log_def Let_def appendFileSync_def text_of_getColoredMessage
        split: option.splits FsNode.splits)
  from a b c d f g show ?thesis by blast
qed


theorem log_line_ignores_level_witness:
  "files \<lparr>console = [], files = [''app.log'' \<mapsto> File ''old'']\<rparr>
     (logFile \<lparr>logger_prefix = ''BOT'', logFile = ''app.log''\<rparr>) = Some (File ''old'')
   \<and> files (log \<lparr>logger_prefix = ''BOT'', logFile = ''app.log''\<rparr> ''2025-01-01T00:00:00.000Z''
        \<lparr>console = [], files = [''app.log'' \<mapsto> File ''old'']\<rparr> Info ''hi'') ''app.log'' =
      Some (File (''old[2025-01-01T00:00:00.000Z]BOT : hi'' @ [CHR 0x0A]))
   \<and> files \<lparr>console = [], files = Map.empty\<rparr>
        (logFile \<lparr>logger_prefix = [], logFile = ''app.log''\<rparr>) = None
   \<and> files (log \<lparr>logger_prefix = [], logFile = ''app.log''\<rparr> ''2025-01-01T00:00:00.000Z''
        \<lparr>console = [], files = Map.empty\<rparr> Error ''hi'') ''app.log'' =
      Some (File (''[2025-01-01T00:00:00.000Z]: hi'' @ [CHR 0x0A]))
   \<and> files \<lparr>console = [], files = [''app.log'' \<mapsto> Unwritable ''Error: EACCES'']\<rparr>
        (logFile \<lparr>logger_prefix = ''BOT'', logFile = ''app.log''\<rparr>) =
      Some (Unwritable ''Error: EACCES'')
   \<and> console (log \<lparr>logger_prefix = ''BOT'', logFile = ''app.log''\<rparr> ''2025-01-01T00:00:00.000Z''
        \<lparr>console = [], files = [''app.log'' \<mapsto> Unwritable ''Error: EACCES'']\<rparr> Warn ''hi'') =
      [ConsoleLog (Coloured Yellow ''[2025-01-01T00:00:00.000Z]BOT : hi''),
       ConsoleError
         (Coloured Red ''[LOGGER ERROR]: Unable to write to file - Error: EACCES'')]
   \<and> (\<forall>e. files \<lparr>console = [], files = [''app.log'' \<mapsto> File ''old'']\<rparr>
             (logFile \<lparr>logger_prefix = ''BOT'', logFile = ''app.log''\<rparr>) \<noteq> Some (Unwritable e))
   \<and> console (log \<lparr>logger_prefix = ''BOT'', logFile = ''app.log''\<rparr> ''2025-01-01T00:00:00.000Z''
        \<lparr>console = [], files = [''app.log'' \<mapsto> File ''old'']\<rparr> Info ''hi'') =
      [ConsoleLog (Coloured Green ''[2025-01-01T00:00:00.000Z]BOT : hi'')]"
  using log_line_ignores_level
      [of "\<lparr>logger_prefix = ''BOT'', logFile = ''app.log''\<rparr>" "''2025-01-01T00:00:00.000Z''"
          "\<lparr>console = [], files = [''app.log'' \<mapsto> File ''old'']\<rparr>" Info "''hi''" Info
          "''old''" "''none''"]
    log_line_ignores_level
      [of "\<lparr>logger_prefix = [], logFile = ''app.log''\<rparr>" "''2025-01-01T00:00:00.000Z''"
          "\<lparr>console = [], files = Map.empty\<rparr>" Error "''hi''" Error "''old''" "''none''"]
    log_line_ignores_level
      [of "\<lparr>logger_prefix = ''BOT'', logFile = ''app.log''\<rparr>" "''2025-01-01T00:00:00.000Z''"
          "\<lparr>console = [], files = [''app.log'' \<mapsto> Unwritable ''Error: EACCES'']\<rparr>" Warn
          "''hi''" Warn "''old''" "''Error: EACCES''"]
  by simp

end
